theory Spec2Isabelle
  imports Main "HOL-Library.Word"
begin

section \<open>The resolve command of paymail-inspector (cmd/resolve.go)\<close>

text \<open>
  The command resolves a paymail address \<open>alias@domain\<close> into an output script and an
  address. Its \<open>Run\<close> function is one forward pass with early returns. The model keeps
  that shape: every phase of \<open>Run\<close> is a function that either stops the run (an early
  \<^verbatim>\<open>return\<close>, or a Go panic) or goes on with the values later phases read. What the
  run does to the outside world is recorded as a list of events, in order: the lines it
  logs through \<open>chalker.Log\<close> and the calls it makes to the collaborators that go to the
  network.
\<close>

subsection \<open>Go's strings package\<close>

text \<open>Go strings are byte sequences, as \<^typ>\<open>string\<close> is a list of \<^typ>\<open>char\<close>.\<close>

fun strings_HasPrefix :: "string \<Rightarrow> string \<Rightarrow> bool" where
  "strings_HasPrefix s [] = True"
| "strings_HasPrefix [] (p # ps) = False"
| "strings_HasPrefix (c # cs) (p # ps) = (c = p \<and> strings_HasPrefix cs ps)"

fun strings_Contains :: "string \<Rightarrow> string \<Rightarrow> bool" where
  "strings_Contains [] substr = (substr = [])"
| "strings_Contains (c # cs) substr =
     (strings_HasPrefix (c # cs) substr \<or> strings_Contains cs substr)"

text \<open>\<open>strings.Split(s, sep)\<close> for a separator of one byte: never an empty slice.\<close>

fun strings_Split :: "string \<Rightarrow> char \<Rightarrow> string list" where
  "strings_Split [] sep = [[]]"
| "strings_Split (c # cs) sep =
     (if c = sep then [] # strings_Split cs sep
      else (case strings_Split cs sep of
              [] \<Rightarrow> [[c]]
            | p # ps \<Rightarrow> (c # p) # ps))"

subsection \<open>Data\<close>

text \<open>The levels of \<open>chalker.Log\<close> that the command uses.\<close>

datatype level = DEFAULT | INFO | WARN | ERROR | SUCCESS

text \<open>The request and response structs of the paymail package, by their Go field names.\<close>

record AddressResolutionRequest =
  Amount :: "64 word"
  Dt :: string
  Purpose :: string
  SenderHandle :: string
  SenderName :: string
  Signature :: string

record PKIResponse =
  PubKey :: string

record AddressResolutionResponse =
  Output :: string
  Address :: string

record PublicProfileResponse =
  Name :: string
  Avatar :: string

text \<open>
  What a run does that can be seen from outside: a line logged at a level, or a call to
  a collaborator that goes to the network, with the arguments of the call.
\<close>

datatype event =
    Log level string
  | CallGetCapabilities string
  | CallGetPki string string string
  | CallAddressResolution string string string AddressResolutionRequest
  | CallGetPublicProfile string string string

fun is_call :: "event \<Rightarrow> bool" where
  "is_call (Log l s) = False"
| "is_call e = True"

definition calls :: "event list \<Rightarrow> event list" where
  "calls es = filter is_call es"

definition logs :: "event list \<Rightarrow> event list" where
  "logs es = filter (\<lambda>e. \<not> is_call e) es"

text \<open>
  How a run ends: it reaches the end of \<open>Run\<close>, it leaves through one of the early
  \<^verbatim>\<open>return\<close> statements, or it panics (an index out of range, a nil pointer).
\<close>

datatype outcome = Completed | Aborted | Panicked

datatype 'a step = Stop "event list" outcome | Go "event list" 'a

subsection \<open>What resolve.go takes from the rest of the program\<close>

text \<open>
  The constants that resolve.go names and that are declared in other files of the
  repository: the two viper keys and the capability identifiers of the paymail package.
  They are parameters of the model.
\<close>

record names =
  flagSenderHandle :: string
  flagSenderName :: string
  BRFCPki :: string
  BRFCPkiAlternate :: string
  BRFCPaymentDestination :: string
  BRFCBasicAddressResolution :: string
  BRFCSenderValidation :: string
  BRFCPublicProfile :: string

text \<open>
  The package-level variables that the flags are parsed into, and viper's lookup, as
  they are when \<open>Run\<close> starts.
\<close>

record globals =
  amount :: "64 word"
  purpose :: string
  signature :: string
  skipPki :: bool
  skipPublicProfile :: bool
  viper_GetString :: "string \<Rightarrow> string"

text \<open>
  The collaborators. A Go result \<open>(ptr, err)\<close> is \<open>Inl\<close> of the error's text when
  \<open>err\<close> is not nil, and otherwise \<open>Inr\<close> of the pointer, \<open>None\<close> when it is nil.
  \<^item> \<open>validatePaymailAndDomain\<close> answers \<open>None\<close> when the address and domain are
    valid, and otherwise the error it has already shown (resolve.go, line 59).
  \<^item> The capabilities document is kept abstract; \<open>GetValueString\<close> and
    \<open>GetValueBool\<close> are its two accessors.
  \<^item> \<open>Cyan_Color\<close> is \<open>chalk.Cyan.Color\<close>.
  \<^item> \<open>time_Now\<close> is \<open>time.Now().UTC().Format(time.RFC3339)\<close> at the moment
    the request is built, \<open>rand_Read\<close> the bytes the random source hands out.
\<close>

record 'caps world =
  validatePaymailAndDomain :: "string \<Rightarrow> string \<Rightarrow> string option"
  getCapabilities :: "string \<Rightarrow> string + 'caps"
  GetValueString :: "'caps \<Rightarrow> string \<Rightarrow> string \<Rightarrow> string"
  GetValueBool :: "'caps \<Rightarrow> string \<Rightarrow> string \<Rightarrow> bool"
  getPki :: "string \<Rightarrow> string \<Rightarrow> string \<Rightarrow> string + PKIResponse option"
  AddressResolution ::
    "string \<Rightarrow> string \<Rightarrow> string \<Rightarrow> AddressResolutionRequest
       \<Rightarrow> string + AddressResolutionResponse option"
  GetPublicProfile :: "string \<Rightarrow> string \<Rightarrow> string \<Rightarrow> string + PublicProfileResponse option"
  Cyan_Color :: "string \<Rightarrow> string"
  time_Now :: string
  rand_Read :: "nat \<Rightarrow> 8 word"

text \<open>
  Modelled from the spec: \<open>paymail.ExtractParts\<close> is not among the sources. The spec
  derives a handle "by splitting an address on \<open>@\<close>" and has a receiver address that
  "lacks \<open>@\<close>" rejected as no paymail address: an input with an \<open>@\<close> is the address,
  its domain the part after the first \<open>@\<close>; an input without one is a bare domain and
  gives the empty address. The result is the pair (domain, address), in the order of
  the Go function's results.
\<close>

definition ExtractParts :: "string \<Rightarrow> string \<times> string" where
  "ExtractParts paymailInput =
     (if CHR ''@'' \<in> set paymailInput
      then (case strings_Split paymailInput CHR ''@'' of
              a # d # rest \<Rightarrow> (d, paymailInput)
            | _ \<Rightarrow> ([], paymailInput))
      else (paymailInput, []))"

text \<open>
  Modelled from the spec: \<open>RandomHex\<close> is not among the sources. The spec's
  \<open>randomHex(byteLength)\<close> yields a random placeholder of that many bytes in
  hexadecimal: two digits for each byte read from the random source.
\<close>

definition hexdigit :: "nat \<Rightarrow> char" where
  "hexdigit k = ''0123456789abcdef'' ! (k mod 16)"

definition hex_EncodeToString :: "8 word list \<Rightarrow> string" where
  "hex_EncodeToString bs = concat (map (\<lambda>b. [hexdigit (unat b div 16), hexdigit (unat b mod 16)]) bs)"

definition RandomHex :: "(nat \<Rightarrow> 8 word) \<Rightarrow> nat \<Rightarrow> string" where
  "RandomHex src k = hex_EncodeToString (map src [0..<k])"

definition is_hex :: "char \<Rightarrow> bool" where
  "is_hex c = (c \<in> set ''0123456789abcdef'')"

subsection \<open>The phases of Run\<close>

text \<open>
  Lines 47 to 75: the receiver's and the sender's handle. The receiver's address must
  be there and valid. A sender handle that is not set becomes the receiver's address,
  with a warning; one that is set must be valid.
\<close>

record handles =
  domain :: string
  paymailAddress :: string
  senderDomain :: string
  senderHandle :: string

definition gate :: "names \<Rightarrow> 'caps world \<Rightarrow> globals \<Rightarrow> string \<Rightarrow> handles step" where
  "gate n w g arg0 =
     (case ExtractParts (viper_GetString g (flagSenderHandle n)) of (senderDomain0, senderHandle0) \<Rightarrow>
      case ExtractParts arg0 of (domain0, paymailAddress0) \<Rightarrow>
        if length paymailAddress0 = 0
        then Stop [Log ERROR ''paymail address not found or invalid''] Aborted
        else (case validatePaymailAndDomain w paymailAddress0 domain0 of
                Some e \<Rightarrow> Stop [Log ERROR e] Aborted
              | None \<Rightarrow>
                  if length senderHandle0 = 0
                  then (case ExtractParts paymailAddress0 of (senderDomain1, senderHandle1) \<Rightarrow>
                          Go [Log WARN (''--'' @ flagSenderHandle n @ '' not set, using: '' @ paymailAddress0)]
                             \<lparr>domain = domain0, paymailAddress = paymailAddress0,
                              senderDomain = senderDomain1, senderHandle = senderHandle1\<rparr>)
                  else (case validatePaymailAndDomain w senderHandle0 senderDomain0 of
                          Some e \<Rightarrow> Stop [Log ERROR e] Aborted
                        | None \<Rightarrow>
                            Go [] \<lparr>domain = domain0, paymailAddress = paymailAddress0,
                                  senderDomain = senderDomain0, senderHandle = senderHandle0\<rparr>)))"

text \<open>
  Lines 77 to 100: the receiver's capabilities, and the two that are required. The
  error of a failed discovery is told apart by its text.
\<close>

record 'caps found =
  capabilities :: 'caps
  pkiUrl :: string
  resolveUrl :: string

definition discover :: "names \<Rightarrow> 'caps world \<Rightarrow> handles \<Rightarrow> 'caps found step" where
  "discover n w h =
     (case getCapabilities w (domain h) of
        Inl err \<Rightarrow>
          if strings_Contains err ''context deadline exceeded''
          then Stop [CallGetCapabilities (domain h),
                     Log WARN (''no capabilities found for: '' @ domain h)] Aborted
          else Stop [CallGetCapabilities (domain h),
                     Log ERROR (''error: '' @ err)] Aborted
      | Inr caps \<Rightarrow>
          (let pki = GetValueString w caps (BRFCPki n) (BRFCPkiAlternate n) in
           if length pki = 0
           then Stop [CallGetCapabilities (domain h),
                      Log ERROR (domain h @ '' is missing a required capability: '' @ BRFCPki n)] Aborted
           else
             (let res = GetValueString w caps (BRFCPaymentDestination n) (BRFCBasicAddressResolution n) in
              if length res = 0
              then Stop [CallGetCapabilities (domain h),
                         Log ERROR (domain h @ '' is missing a required capability: ''
                                      @ BRFCPaymentDestination n)] Aborted
              else Go [CallGetCapabilities (domain h)]
                      \<lparr>capabilities = caps, pkiUrl = pki, resolveUrl = res\<rparr>)))"

text \<open>
  Lines 102 to 152: sender validation, entered only when the receiver's capabilities
  ask for it. The branch writes the package-level variable \<open>signature\<close> when the caller
  gave none, so the function also returns the signature as it is afterwards. In the
  log line of the sender's public key, \<open>CHR 0x27\<close> is the apostrophe.
\<close>

definition senderValidation ::
    "names \<Rightarrow> 'caps world \<Rightarrow> globals \<Rightarrow> handles \<Rightarrow> 'caps found \<Rightarrow> string \<times> unit step" where
  "senderValidation n w g h d =
     (if GetValueBool w (capabilities d) (BRFCSenderValidation n) []
      then
        (let sig = (if length (signature g) = 0 then RandomHex (rand_Read w) 64 else signature g);
             e1 = Log WARN ''sender validation is ENFORCED'' #
                  (if length (signature g) = 0
                   then [Log ERROR (''missing required flag: '' @ ''--signature'' @ '' - see the help section: -h''),
                         Log WARN (''attempting to fake a signature for: '' @ senderHandle h @ ''...'')]
                   else [])
         in
         if senderHandle h \<noteq> paymailAddress h
         then
           (case getCapabilities w (senderDomain h) of
              Inl getErr \<Rightarrow>
                if strings_Contains getErr ''context deadline exceeded''
                then (sig, Stop (e1 @ [CallGetCapabilities (senderDomain h),
                                       Log WARN (''no capabilities found for: '' @ domain h)]) Aborted)
                else (sig, Stop (e1 @ [CallGetCapabilities (senderDomain h),
                                       Log ERROR (''error: '' @ getErr)]) Aborted)
            | Inr senderCapabilities \<Rightarrow>
                (let senderPkiUrl = GetValueString w senderCapabilities (BRFCPki n) (BRFCPkiAlternate n) in
                 if length senderPkiUrl = 0
                 then (sig, Stop (e1 @ [CallGetCapabilities (senderDomain h),
                                        Log ERROR (senderDomain h @ '' is missing a required capability: ''
                                                     @ BRFCPki n)]) Aborted)
                 else
                   (case strings_Split (senderHandle h) CHR ''@'' of
                      p0 # p1 # rest \<Rightarrow>
                        (case getPki w senderPkiUrl p0 p1 of
                           Inl err \<Rightarrow>
                             (sig, Stop (e1 @ [CallGetCapabilities (senderDomain h),
                                               CallGetPki senderPkiUrl p0 p1,
                                               Log ERROR (''error: '' @ err)]) Aborted)
                         | Inr senderPki \<Rightarrow>
                             (sig, Go (e1 @ [CallGetCapabilities (senderDomain h),
                                             CallGetPki senderPkiUrl p0 p1]
                                        @ (case senderPki of
                                             None \<Rightarrow> []
                                           | Some k \<Rightarrow>
                                               [Log INFO (''--'' @ flagSenderHandle n @ '' '' @ p0 @ ''@'' @ p1
                                                            @ [CHR 0x27] @ ''s pubkey: ''
                                                            @ Cyan_Color w (PubKey k))])
                                        @ [Log SUCCESS ''send request pre-validation: passed'']) ()))
                    | _ \<Rightarrow> (sig, Stop (e1 @ [CallGetCapabilities (senderDomain h)]) Panicked))))
         else (sig, Go (e1 @ [Log SUCCESS ''send request pre-validation: passed'']) ()))
      else (signature g, Go [] ()))"

text \<open>Lines 164 to 172: the body of the request.\<close>

definition senderRequest ::
    "names \<Rightarrow> 'caps world \<Rightarrow> globals \<Rightarrow> handles \<Rightarrow> string \<Rightarrow> AddressResolutionRequest" where
  "senderRequest n w g h sig =
     \<lparr>Amount = amount g,
      Dt = time_Now w,
      Purpose = purpose g,
      SenderHandle = senderHandle h,
      SenderName = viper_GetString g (flagSenderName n),
      Signature = sig\<rparr>"

text \<open>Lines 186 to 201: the public profile, when it is advertised and not skipped.\<close>

definition publicProfile ::
    "names \<Rightarrow> 'caps world \<Rightarrow> globals \<Rightarrow> 'caps \<Rightarrow> string \<Rightarrow> string \<Rightarrow> event list" where
  "publicProfile n w g caps alias host =
     (let url = GetValueString w caps (BRFCPublicProfile n) [] in
      if length url > 0 \<and> \<not> skipPublicProfile g
      then
        Log DEFAULT (''getting public profile for: '' @ Cyan_Color w (alias @ ''@'' @ host) @ ''...'')
        # CallGetPublicProfile url alias host
        # (case GetPublicProfile w url alias host of
             Inl err \<Rightarrow> [Log ERROR (''get public profile failed: '' @ err)]
           | Inr None \<Rightarrow> []
           | Inr (Some profile) \<Rightarrow>
               (if length (Name profile) > 0
                then [Log DEFAULT (''name: '' @ Cyan_Color w (Name profile))] else [])
               @ (if length (Avatar profile) > 0
                  then [Log DEFAULT (''avatar: '' @ Cyan_Color w (Avatar profile))] else []))
      else [])"

text \<open>
  Lines 203 to 212: the final report. The response of the resolution is read without
  a nil check, so a nil response with no error is a panic, after the public key line.
\<close>

definition pubkeyLine :: "'caps world \<Rightarrow> PKIResponse option \<Rightarrow> event list" where
  "pubkeyLine w pki =
     (case pki of
        None \<Rightarrow> []
      | Some k \<Rightarrow>
          if length (PubKey k) > 0
          then [Log DEFAULT (''pubkey: '' @ Cyan_Color w (PubKey k))] else [])"

definition report ::
    "'caps world \<Rightarrow> PKIResponse option \<Rightarrow> AddressResolutionResponse option \<Rightarrow> event list \<times> outcome" where
  "report w pki resolutionResponse =
     (case resolutionResponse of
        None \<Rightarrow> (pubkeyLine w pki, Panicked)
      | Some r \<Rightarrow>
          (pubkeyLine w pki
             @ [Log DEFAULT (''output script: '' @ Cyan_Color w (Output r)),
                Log DEFAULT (''address: '' @ Cyan_Color w (Address r))],
           Completed))"

text \<open>
  Lines 154 to 213: the receiver's public key, the resolution, the profile and the
  report. \<open>sig\<close> is the signature as sender validation left it. The first part of the
  split address is the alias; \<open>strings.Split\<close> never returns an empty slice.
\<close>

definition resolve ::
    "names \<Rightarrow> 'caps world \<Rightarrow> globals \<Rightarrow> handles \<Rightarrow> 'caps found \<Rightarrow> string \<Rightarrow> event list \<times> outcome" where
  "resolve n w g h d sig =
     (case strings_Split (paymailAddress h) CHR ''@'' of
        [] \<Rightarrow> ([], Panicked)
      | alias # rest \<Rightarrow>
          (case getPki w (pkiUrl d) alias (domain h) of
             Inl err \<Rightarrow>
               ([CallGetPki (pkiUrl d) alias (domain h), Log ERROR (''error: '' @ err)], Aborted)
           | Inr pki \<Rightarrow>
               (let senderReq = senderRequest n w g h sig;
                    pre = [CallGetPki (pkiUrl d) alias (domain h),
                           Log DEFAULT (''resolving address: '' @ Cyan_Color w (alias @ ''@'' @ domain h) @ ''...''),
                           CallAddressResolution (resolveUrl d) alias (domain h) senderReq]
                in
                case AddressResolution w (resolveUrl d) alias (domain h) senderReq of
                  Inl err \<Rightarrow> (pre @ [Log ERROR (''address resolution failed: '' @ err)], Aborted)
                | Inr resolutionResponse \<Rightarrow>
                    (pre @ [Log SUCCESS ''address resolution successful'']
                       @ publicProfile n w g (capabilities d) alias (domain h)
                       @ fst (report w pki resolutionResponse),
                     snd (report w pki resolutionResponse)))))"

subsection \<open>Run\<close>

text \<open>
  The result of a run: its events in order, how it ended, and the package-level
  variable \<open>signature\<close> as the run left it. Cobra calls \<open>Run\<close> only after \<open>Args\<close>
  has accepted the arguments, of which there is then exactly one: \<open>arg0\<close>.
\<close>

record result =
  events :: "event list"
  final :: outcome
  signature_after :: string

definition Run :: "names \<Rightarrow> 'caps world \<Rightarrow> globals \<Rightarrow> string \<Rightarrow> result" where
  "Run n w g arg0 =
     (case gate n w g arg0 of
        Stop e1 oc \<Rightarrow> \<lparr>events = e1, final = oc, signature_after = signature g\<rparr>
      | Go e1 h \<Rightarrow>
          (case discover n w h of
             Stop e2 oc \<Rightarrow> \<lparr>events = e1 @ e2, final = oc, signature_after = signature g\<rparr>
           | Go e2 d \<Rightarrow>
               (case senderValidation n w g h d of
                  (sig, Stop e3 oc) \<Rightarrow>
                    \<lparr>events = e1 @ e2 @ e3, final = oc, signature_after = sig\<rparr>
                | (sig, Go e3 u) \<Rightarrow>
                    \<lparr>events = e1 @ e2 @ e3 @ fst (resolve n w g h d sig),
                     final = snd (resolve n w g h d sig),
                     signature_after = sig\<rparr>)))"

subsection \<open>The flags (init) and viper\<close>

text \<open>
  What the caller gives: a value for each flag that is on the command line (\<open>None\<close>
  for a flag that is not), the string flags registered under one of the two name
  constants by their name, and the values viper finds outside the flags (configuration
  file, environment) by key.
\<close>

record cmdline =
  opt_amount :: "64 word option"
  opt_purpose :: "string option"
  opt_signature :: "string option"
  opt_skip_pki :: "bool option"
  opt_skip_public_profile :: "bool option"
  opt_named :: "string \<Rightarrow> string option"
  settings :: "string \<Rightarrow> string option"

text \<open>
  The two calls of \<open>viper.BindPFlag\<close> in \<open>init\<close> (lines 227 and 231), in order: the
  viper key and the name of the flag looked up for it. Both look up \<open>flagSenderHandle\<close>.
\<close>

definition init_BindPFlag :: "names \<Rightarrow> (string \<times> string) list" where
  "init_BindPFlag n =
     [(flagSenderHandle n, flagSenderHandle n),
      (flagSenderName n, flagSenderHandle n)]"

text \<open>
  \<open>viper.GetString\<close> for a key: the value of the flag bound to the key when that
  flag was given on the command line; otherwise what viper finds for the key elsewhere;
  otherwise the default of the bound flag (the empty string for both flags, lines 226
  and 230), which is also the answer for a key that nothing is known about. A later
  binding of a key replaces an earlier one.
\<close>

definition viper_find :: "names \<Rightarrow> cmdline \<Rightarrow> string \<Rightarrow> string" where
  "viper_find n c key =
     (case map_of (rev (init_BindPFlag n)) key of
        Some flag \<Rightarrow>
          (case opt_named c flag of
             Some v \<Rightarrow> v
           | None \<Rightarrow> (case settings c key of Some v \<Rightarrow> v | None \<Rightarrow> []))
      | None \<Rightarrow> (case settings c key of Some v \<Rightarrow> v | None \<Rightarrow> []))"

text \<open>
  The variables after \<open>init\<close> and the parsing of the command line: each flag's
  default (lines 220 to 240) unless the flag was given.
\<close>

definition init :: "names \<Rightarrow> cmdline \<Rightarrow> globals" where
  "init n c =
     \<lparr>amount = (case opt_amount c of None \<Rightarrow> 0 | Some a \<Rightarrow> a),
      purpose = (case opt_purpose c of None \<Rightarrow> [] | Some p \<Rightarrow> p),
      signature = (case opt_signature c of None \<Rightarrow> [] | Some s \<Rightarrow> s),
      skipPki = (case opt_skip_pki c of None \<Rightarrow> False | Some b \<Rightarrow> b),
      skipPublicProfile = (case opt_skip_public_profile c of None \<Rightarrow> False | Some b \<Rightarrow> b),
      viper_GetString = viper_find n c\<rparr>"

subsection \<open>Observations on runs\<close>

text \<open>
  The two fields of an outgoing request that are not fixed by the caller's input: the
  time stamp, and the signature when it is the random placeholder. \<open>forget_dt\<close>
  blanks the first in the event of a resolution call, \<open>forget_dt_sig\<close> both.
\<close>

fun forget_dt :: "event \<Rightarrow> event" where
  "forget_dt (CallAddressResolution u a d r) = CallAddressResolution u a d (r\<lparr>Dt := []\<rparr>)"
| "forget_dt e = e"

fun forget_dt_sig :: "event \<Rightarrow> event" where
  "forget_dt_sig (CallAddressResolution u a d r) =
     CallAddressResolution u a d (r\<lparr>Dt := [], Signature := []\<rparr>)"
| "forget_dt_sig e = e"


subsection \<open>A concrete provider, for running the model\<close>

text \<open>
  Modelled from the spec: the capabilities document of the paymail package is not among
  the sources. The spec's capability set maps an identifier to a URL template or to a
  flag; a lookup takes a primary and an optional alternate identifier, the first match
  wins; the string is empty and the flag false when the capability is absent. The
  theorems on \<open>Run\<close> hold for every document type and accessors; this one serves the
  concrete runs.
\<close>

datatype capability = URL string | Flag bool

definition doc_GetValue :: "(string \<times> capability) list \<Rightarrow> string \<Rightarrow> string \<Rightarrow> capability option" where
  "doc_GetValue doc brfcID alternateID =
     (case map_of doc brfcID of
        Some v \<Rightarrow> Some v
      | None \<Rightarrow> if alternateID = [] then None else map_of doc alternateID)"

definition doc_GetValueString :: "(string \<times> capability) list \<Rightarrow> string \<Rightarrow> string \<Rightarrow> string" where
  "doc_GetValueString doc brfcID alternateID =
     (case doc_GetValue doc brfcID alternateID of Some (URL u) \<Rightarrow> u | _ \<Rightarrow> [])"

definition doc_GetValueBool :: "(string \<times> capability) list \<Rightarrow> string \<Rightarrow> string \<Rightarrow> bool" where
  "doc_GetValueBool doc brfcID alternateID =
     (case doc_GetValue doc brfcID alternateID of Some (Flag b) \<Rightarrow> b | _ \<Rightarrow> False)"

text \<open>
  The names as the bsvalias documents give them (the constants themselves are declared
  outside resolve.go).
\<close>

definition bsvalias :: names where
  "bsvalias =
     \<lparr>flagSenderHandle = ''sender-handle'',
      flagSenderName = ''sender-name'',
      BRFCPki = ''pki'',
      BRFCPkiAlternate = ''0c4339ef99c2'',
      BRFCPaymentDestination = ''paymentDestination'',
      BRFCBasicAddressResolution = ''759684b1a19a'',
      BRFCSenderValidation = ''6745385c3fc0'',
      BRFCPublicProfile = ''f12f968c92d6''\<rparr>"

text \<open>
  A transport with fixed answers: every domain serves the document \<open>doc\<close>, every
  handle is valid, every call succeeds.
\<close>

definition mock :: "(string \<times> capability) list \<Rightarrow> (string \<times> capability) list world" where
  "mock doc =
     \<lparr>validatePaymailAndDomain = (\<lambda>a d. None),
      getCapabilities = (\<lambda>d. Inr doc),
      GetValueString = doc_GetValueString,
      GetValueBool = doc_GetValueBool,
      getPki = (\<lambda>u a d. Inr (Some \<lparr>PubKey = ''02ab''\<rparr>)),
      AddressResolution = (\<lambda>u a d r. Inr (Some \<lparr>Output = ''76a914'', Address = ''1Bob''\<rparr>)),
      GetPublicProfile = (\<lambda>u a d. Inr (Some \<lparr>Name = ''Bob'', Avatar = []\<rparr>)),
      Cyan_Color = (\<lambda>s. s),
      time_Now = ''2020-02-02T20:20:02Z'',
      rand_Read = (\<lambda>i. 0)\<rparr>"

definition doc_basic :: "(string \<times> capability) list" where
  "doc_basic = [(''pki'', URL ''https://p/id''), (''paymentDestination'', URL ''https://p/addr'')]"

definition doc_validating :: "(string \<times> capability) list" where
  "doc_validating = doc_basic @ [(''6745385c3fc0'', Flag True)]"

definition doc_profile :: "(string \<times> capability) list" where
  "doc_profile = doc_validating @ [(''f12f968c92d6'', URL ''https://p/profile'')]"

text \<open>The command line with no flag: every variable at its default.\<close>

definition no_flags :: cmdline where
  "no_flags =
     \<lparr>opt_amount = None, opt_purpose = None, opt_signature = None, opt_skip_pki = None,
      opt_skip_public_profile = None, opt_named = (\<lambda>k. None), settings = (\<lambda>k. None)\<rparr>"

text \<open>A provider whose discovery runs into the deadline, and one that answers nothing.\<close>

definition slow :: "(string \<times> capability) list world" where
  "slow = (mock doc_basic)
     \<lparr>getCapabilities := (\<lambda>d. Inl ''Get https://receiver.com: context deadline exceeded'')\<rparr>"

definition bob :: handles where
  "bob = \<lparr>domain = ''receiver.com'', paymailAddress = ''bob@receiver.com'',
          senderDomain = ''receiver.com'', senderHandle = ''bob@receiver.com''\<rparr>"

text \<open>The events of a phase, whether it stops the run or goes on.\<close>

fun step_events :: "'a step \<Rightarrow> event list" where
  "step_events (Stop es oc) = es"
| "step_events (Go es x) = es"

text \<open>
  The caller names a sender: \<open>--sender-handle alice@sender.com --sender-name Alice\<close>.
  A caller who signs: \<open>--signature 3045\<close>. A transport on which the discovery of the
  sender's domain runs into the deadline.
\<close>

definition from_alice :: cmdline where
  "from_alice =
     no_flags\<lparr>opt_named :=
       map_of [(''sender-handle'', ''alice@sender.com''), (''sender-name'', ''Alice'')]\<rparr>"

definition signed :: cmdline where
  "signed = no_flags\<lparr>opt_signature := Some ''3045''\<rparr>"

definition sender_slow :: "(string \<times> capability) list world" where
  "sender_slow = (mock doc_validating)
     \<lparr>getCapabilities :=
        (\<lambda>d. if d = ''sender.com''
             then Inl ''Get https://sender.com/.well-known/bsvalias: context deadline exceeded''
             else Inr doc_validating)\<rparr>"

text \<open>
  A transport whose PKI endpoint fails, one whose profile endpoint fails, and the
  receiver's capabilities as the discovery at the provider with a profile leaves them.
\<close>

definition pki_down :: "(string \<times> capability) list world" where
  "pki_down = (mock doc_basic)\<lparr>getPki := (\<lambda>u a d. Inl ''Get https://p/id: connection refused'')\<rparr>"

definition profile_down :: "(string \<times> capability) list world" where
  "profile_down = (mock doc_profile)\<lparr>GetPublicProfile := (\<lambda>u a d. Inl ''bad response: 500'')\<rparr>"

definition found_basic :: "(string \<times> capability) list found" where
  "found_basic =
     \<lparr>capabilities = doc_basic, pkiUrl = ''https://p/id'', resolveUrl = ''https://p/addr''\<rparr>"

definition found_profile :: "(string \<times> capability) list found" where
  "found_profile =
     \<lparr>capabilities = doc_profile, pkiUrl = ''https://p/id'', resolveUrl = ''https://p/addr''\<rparr>"

section \<open>Properties of the runs\<close>

subsection \<open>Splitting and extracting\<close>

lemma strings_Split_not_Nil: "strings_Split s sep \<noteq> []"
  by (induction s) (auto split: list.splits)

lemma strings_Split_two: "sep \<in> set s \<Longrightarrow> \<exists>a d rest. strings_Split s sep = a # d # rest"
proof (induction s)
  case Nil
  then show ?case by simp
next
  case (Cons c cs)
  show ?case
  proof (cases "c = sep")
    case True
    obtain p ps where "strings_Split cs sep = p # ps"
      using strings_Split_not_Nil [of cs sep] by (cases "strings_Split cs sep") auto
    with True show ?thesis by simp
  next
    case False
    with Cons.prems have "sep \<in> set cs" by simp
    then obtain a d rest where "strings_Split cs sep = a # d # rest"
      using Cons.IH by blast
    with False show ?thesis by simp
  qed
qed

lemma ExtractParts_address:
  "snd (ExtractParts s) = (if CHR ''@'' \<in> set s then s else [])"
  by (auto simp: ExtractParts_def split: list.splits)

text \<open>With an \<open>@\<close> in the input the split has a second part, which is the domain.\<close>

lemma ExtractParts_domain:
  assumes "CHR ''@'' \<in> set s"
  shows "\<exists>a rest. strings_Split s CHR ''@'' = a # fst (ExtractParts s) # rest"
proof -
  obtain a d rest where "strings_Split s CHR ''@'' = a # d # rest"
    using strings_Split_two [OF assms] by blast
  with assms show ?thesis by (simp add: ExtractParts_def)
qed


subsection \<open>What a phase that goes on has established\<close>

lemma gate_no_at:
  "CHR ''@'' \<notin> set arg0 \<Longrightarrow>
     gate n w g arg0 = Stop [Log ERROR ''paymail address not found or invalid''] Aborted"
  by (simp add: gate_def case_prod_beta ExtractParts_address)

lemma gate_invalid:
  "CHR ''@'' \<in> set arg0 \<Longrightarrow>
   validatePaymailAndDomain w arg0 (fst (ExtractParts arg0)) = Some e \<Longrightarrow>
     gate n w g arg0 = Stop [Log ERROR e] Aborted"
  by (auto simp: gate_def case_prod_beta ExtractParts_address)

lemma gate_Go:
  assumes "gate n w g arg0 = Go e1 h"
  shows "domain h = fst (ExtractParts arg0)" and "paymailAddress h = arg0"
    and "CHR ''@'' \<in> set arg0"
    and "validatePaymailAndDomain w arg0 (fst (ExtractParts arg0)) = None"
  using assms
  by (simp_all add: gate_def case_prod_beta ExtractParts_address
        split: if_splits option.splits) auto

lemma discover_Go:
  assumes "discover n w h = Go e2 d"
  shows "e2 = [CallGetCapabilities (domain h)]"
    and "getCapabilities w (domain h) = Inr (capabilities d)"
    and "pkiUrl d = GetValueString w (capabilities d) (BRFCPki n) (BRFCPkiAlternate n)"
    and "resolveUrl d =
           GetValueString w (capabilities d) (BRFCPaymentDestination n) (BRFCBasicAddressResolution n)"
    and "pkiUrl d \<noteq> []" and "resolveUrl d \<noteq> []"
  using assms
  by (auto simp: discover_def Let_def split: sum.splits if_splits)

subsection \<open>The concrete runs\<close>

lemmas run_defs =
  Run_def gate_def discover_def senderValidation_def resolve_def report_def pubkeyLine_def
  publicProfile_def senderRequest_def ExtractParts_def Let_def

lemmas mock_defs =
  mock_def bsvalias_def init_def no_flags_def viper_find_def init_BindPFlag_def doc_basic_def
  doc_validating_def doc_profile_def doc_GetValueString_def doc_GetValueBool_def doc_GetValue_def

lemma gate_bob:
  "gate bsvalias (mock doc) (init bsvalias no_flags) ''bob@receiver.com'' =
     Go [Log WARN ''--sender-handle not set, using: bob@receiver.com''] bob"
  by (simp add: gate_def ExtractParts_def bob_def mock_defs)

subsection \<open>Discovery of the receiver's capabilities\<close>

text \<open>
  Claim C4. When the discovery of the receiver's capabilities returns an error, the run
  logs one line and stops there: a warning \<open>no capabilities found for: <domain>\<close> with
  the receiver's domain when the error's text holds "context deadline exceeded", and
  otherwise the error's text at error level. Nothing follows the line, and the run is
  aborted.
\<close>

theorem discovery_error_aborts:
  assumes "gate n w g arg0 = Go e1 h"
    and "getCapabilities w (domain h) = Inl err"
  shows "Run n w g arg0 =
           \<lparr>events = e1 @ [CallGetCapabilities (domain h),
                           if strings_Contains err ''context deadline exceeded''
                           then Log WARN (''no capabilities found for: '' @ domain h)
                           else Log ERROR (''error: '' @ err)],
            final = Aborted,
            signature_after = signature g\<rparr>
         \<and> domain h = fst (ExtractParts arg0)"
  using assms gate_Go(1) [OF assms(1)] by (simp add: Run_def discover_def)

text \<open>The deadline, and another error, for \<open>bob@receiver.com\<close>.\<close>

theorem discovery_error_aborts_witness:
  "Run bsvalias slow (init bsvalias no_flags) ''bob@receiver.com'' =
     \<lparr>events = [Log WARN ''--sender-handle not set, using: bob@receiver.com'',
                CallGetCapabilities ''receiver.com'',
                Log WARN ''no capabilities found for: receiver.com''],
      final = Aborted, signature_after = []\<rparr>
   \<and> Run bsvalias (slow\<lparr>getCapabilities := (\<lambda>d. Inl ''no such host'')\<rparr>)
         (init bsvalias no_flags) ''bob@receiver.com'' =
     \<lparr>events = [Log WARN ''--sender-handle not set, using: bob@receiver.com'',
                CallGetCapabilities ''receiver.com'',
                Log ERROR ''error: no such host''],
      final = Aborted, signature_after = []\<rparr>"
proof -
  have g1: "gate bsvalias slow (init bsvalias no_flags) ''bob@receiver.com'' =
              Go [Log WARN ''--sender-handle not set, using: bob@receiver.com''] bob"
    by (simp add: gate_def ExtractParts_def bob_def slow_def mock_defs)
  have c1: "getCapabilities slow (domain bob) =
              Inl ''Get https://receiver.com: context deadline exceeded''"
    by (simp add: slow_def mock_def)
  have g2: "gate bsvalias (slow\<lparr>getCapabilities := (\<lambda>d. Inl ''no such host'')\<rparr>)
              (init bsvalias no_flags) ''bob@receiver.com'' =
              Go [Log WARN ''--sender-handle not set, using: bob@receiver.com''] bob"
    by (simp add: gate_def ExtractParts_def bob_def slow_def mock_defs)
  have c2: "getCapabilities (slow\<lparr>getCapabilities := (\<lambda>d. Inl ''no such host'')\<rparr>) (domain bob) =
              Inl ''no such host''"
    by simp
  show ?thesis
    using discovery_error_aborts [OF g1 c1] discovery_error_aborts [OF g2 c2]
    by (simp add: init_def no_flags_def bob_def)
qed

text \<open>
  Claim C1, as amended. When the discovered capabilities have no payment-destination
  endpoint, the run stops after the discovery with the error that a required capability
  is missing, whatever else the document holds. The error names the payment-destination
  identifier when the document has a PKI endpoint; the PKI endpoint is looked for
  first, so when it is missing as well the error names the PKI identifier.
\<close>

theorem missing_capability_aborts:
  assumes "gate n w g arg0 = Go e1 h"
    and "getCapabilities w (domain h) = Inr caps"
    and "GetValueString w caps (BRFCPaymentDestination n) (BRFCBasicAddressResolution n) = []"
  shows "Run n w g arg0 =
           \<lparr>events = e1 @ [CallGetCapabilities (domain h),
                           Log ERROR (domain h @ '' is missing a required capability: ''
                              @ (if GetValueString w caps (BRFCPki n) (BRFCPkiAlternate n) = []
                                 then BRFCPki n else BRFCPaymentDestination n))],
            final = Aborted,
            signature_after = signature g\<rparr>"
  using assms by (simp add: Run_def discover_def)

text \<open>A document with a PKI endpoint and sender validation, and no resolution endpoint.\<close>

theorem missing_capability_aborts_witness:
  "Run bsvalias (mock [(''pki'', URL ''https://p/id''), (''6745385c3fc0'', Flag True)])
       (init bsvalias no_flags) ''bob@receiver.com'' =
     \<lparr>events = [Log WARN ''--sender-handle not set, using: bob@receiver.com'',
                CallGetCapabilities ''receiver.com'',
                Log ERROR ''receiver.com is missing a required capability: paymentDestination''],
      final = Aborted, signature_after = []\<rparr>"
proof -
  let ?doc = "[(''pki'', URL ''https://p/id''), (''6745385c3fc0'', Flag True)]"
  have c: "getCapabilities (mock ?doc) (domain bob) = Inr ?doc"
    by (simp add: mock_def)
  have r: "GetValueString (mock ?doc) ?doc (BRFCPaymentDestination bsvalias)
             (BRFCBasicAddressResolution bsvalias) = []"
    by (simp add: mock_defs)
  show ?thesis
    using missing_capability_aborts [OF gate_bob c r]
    by (simp add: mock_defs bob_def)
qed

text \<open>
  The claim as it was stated fails on the empty document: it has no resolution endpoint,
  and the error of the run names \<open>pki\<close>, not the resolution endpoint.
\<close>

theorem missing_resolution_names_pki:
  "getCapabilities (mock []) ''receiver.com'' = Inr []
   \<and> GetValueString (mock []) [] (BRFCPaymentDestination bsvalias)
        (BRFCBasicAddressResolution bsvalias) = []
   \<and> events (Run bsvalias (mock []) (init bsvalias no_flags) ''bob@receiver.com'') =
       [Log WARN ''--sender-handle not set, using: bob@receiver.com'',
        CallGetCapabilities ''receiver.com'',
        Log ERROR ''receiver.com is missing a required capability: pki'']
   \<and> Log ERROR (''receiver.com is missing a required capability: '' @ BRFCPaymentDestination bsvalias)
        \<notin> set (events (Run bsvalias (mock []) (init bsvalias no_flags) ''bob@receiver.com''))"
  by (simp add: run_defs mock_defs)

subsection \<open>The validation gate\<close>

text \<open>
  Claim C9. A receiver address without an \<open>@\<close>, or one that the validation of address
  and domain rejects, aborts the run with the validation error as its only event: no
  capability discovery, no PKI fetch, no address resolution and no profile fetch.
\<close>

theorem invalid_receiver_no_calls:
  assumes "CHR ''@'' \<notin> set arg0
           \<or> validatePaymailAndDomain w (snd (ExtractParts arg0)) (fst (ExtractParts arg0)) \<noteq> None"
  shows "final (Run n w g arg0) = Aborted
         \<and> calls (events (Run n w g arg0)) = []
         \<and> events (Run n w g arg0) =
             [Log ERROR (if CHR ''@'' \<in> set arg0
                         then (case validatePaymailAndDomain w arg0 (fst (ExtractParts arg0)) of
                                 Some e \<Rightarrow> e | None \<Rightarrow> [])
                         else ''paymail address not found or invalid'')]"
proof (cases "CHR ''@'' \<in> set arg0")
  case False
  then show ?thesis
    by (simp add: Run_def gate_no_at calls_def)
next
  case True
  with assms obtain e where "validatePaymailAndDomain w arg0 (fst (ExtractParts arg0)) = Some e"
    by (auto simp: ExtractParts_address)
  with True show ?thesis
    by (simp add: Run_def gate_invalid calls_def)
qed

text \<open>A bare domain as the receiver.\<close>

theorem invalid_receiver_no_calls_witness:
  "CHR ''@'' \<notin> set ''receiver.com''
   \<and> final (Run bsvalias (mock doc_profile) (init bsvalias no_flags) ''receiver.com'') = Aborted
   \<and> calls (events (Run bsvalias (mock doc_profile) (init bsvalias no_flags) ''receiver.com'')) = []
   \<and> events (Run bsvalias (mock doc_profile) (init bsvalias no_flags) ''receiver.com'') =
       [Log ERROR ''paymail address not found or invalid'']"
proof -
  have h: "CHR ''@'' \<notin> set ''receiver.com''" by simp
  show ?thesis
    using invalid_receiver_no_calls [of "''receiver.com''" "mock doc_profile" bsvalias "init bsvalias no_flags"] h
    by (simp add: calls_def)
qed

subsection \<open>Sender validation\<close>

lemma length_hex_EncodeToString: "length (hex_EncodeToString bs) = 2 * length bs"
  by (induction bs) (simp_all add: hex_EncodeToString_def)

lemma is_hex_hexdigit: "is_hex (hexdigit k)"
proof -
  have "k mod 16 < length ''0123456789abcdef''" by simp
  then have "''0123456789abcdef'' ! (k mod 16) \<in> set ''0123456789abcdef''"
    by (rule nth_mem)
  then show ?thesis by (simp only: is_hex_def hexdigit_def)
qed

lemma hex_EncodeToString_is_hex: "list_all is_hex (hex_EncodeToString bs)"
  by (induction bs) (simp_all add: hex_EncodeToString_def is_hex_hexdigit)

lemma RandomHex_length: "length (RandomHex src k) = 2 * k"
  by (simp add: RandomHex_def length_hex_EncodeToString)

lemma RandomHex_is_hex: "list_all is_hex (RandomHex src k)"
  by (simp add: RandomHex_def hex_EncodeToString_is_hex)

lemma Run_through_senderValidation:
  assumes "gate n w g arg0 = Go e1 h" and "discover n w h = Go e2 d"
  shows "\<exists>tail. events (Run n w g arg0) =
            e1 @ e2 @ step_events (snd (senderValidation n w g h d)) @ tail"
    and "signature_after (Run n w g arg0) = fst (senderValidation n w g h d)"
  using assms
  by (auto simp: Run_def split: prod.splits step.splits)

lemma senderValidation_placeholder:
  assumes "GetValueBool w (capabilities d) (BRFCSenderValidation n) []"
    and "signature g = []"
  shows "fst (senderValidation n w g h d) = RandomHex (rand_Read w) 64"
    and "\<exists>rest. step_events (snd (senderValidation n w g h d)) =
           [Log WARN ''sender validation is ENFORCED'',
            Log ERROR ''missing required flag: --signature - see the help section: -h'',
            Log WARN (''attempting to fake a signature for: '' @ senderHandle h @ ''...'')] @ rest
           \<and> rest \<noteq> []
           \<and> hd rest = (if senderHandle h \<noteq> paymailAddress h
                        then CallGetCapabilities (senderDomain h)
                        else Log SUCCESS ''send request pre-validation: passed'')"
  using assms
  by (auto simp: senderValidation_def Let_def split: sum.splits list.splits option.splits)

lemma discover_bob:
  "discover bsvalias (mock doc_validating) bob =
     Go [CallGetCapabilities ''receiver.com'']
        \<lparr>capabilities = doc_validating, pkiUrl = ''https://p/id'', resolveUrl = ''https://p/addr''\<rparr>"
  by (simp add: discover_def Let_def bob_def mock_defs)

text \<open>
  Claim C2. When the receiver's capabilities declare sender validation and the caller gave
  no signature, the run logs the error that names the flag \<open>--signature\<close>, takes 64
  random bytes in hexadecimal as the signature (128 hexadecimal digits), and goes on: the
  next event is the first of the step that follows in \<open>Run\<close>, the discovery of the
  sender's capabilities when the sender is not the receiver, and the mark that
  pre-validation has passed when it is.
\<close>

theorem placeholder_signature:
  assumes "gate n w g arg0 = Go e1 h"
    and "discover n w h = Go e2 d"
    and "GetValueBool w (capabilities d) (BRFCSenderValidation n) []"
    and "signature g = []"
  shows "(\<exists>rest. events (Run n w g arg0) =
             e1 @ e2 @
             [Log WARN ''sender validation is ENFORCED'',
              Log ERROR ''missing required flag: --signature - see the help section: -h'',
              Log WARN (''attempting to fake a signature for: '' @ senderHandle h @ ''...'')] @ rest
           \<and> rest \<noteq> []
           \<and> hd rest = (if senderHandle h \<noteq> paymailAddress h
                        then CallGetCapabilities (senderDomain h)
                        else Log SUCCESS ''send request pre-validation: passed''))
         \<and> signature_after (Run n w g arg0) = RandomHex (rand_Read w) 64
         \<and> length (signature_after (Run n w g arg0)) = 128
         \<and> list_all is_hex (signature_after (Run n w g arg0))"
proof -
  obtain tail where t: "events (Run n w g arg0) =
      e1 @ e2 @ step_events (snd (senderValidation n w g h d)) @ tail"
    using Run_through_senderValidation(1) [OF assms(1,2)] by blast
  obtain rest where r: "step_events (snd (senderValidation n w g h d)) =
           [Log WARN ''sender validation is ENFORCED'',
            Log ERROR ''missing required flag: --signature - see the help section: -h'',
            Log WARN (''attempting to fake a signature for: '' @ senderHandle h @ ''...'')] @ rest"
      and ne: "rest \<noteq> []"
      and hd: "hd rest = (if senderHandle h \<noteq> paymailAddress h
                        then CallGetCapabilities (senderDomain h)
                        else Log SUCCESS ''send request pre-validation: passed'')"
    using senderValidation_placeholder(2) [OF assms(3,4)] by blast
  have ev: "events (Run n w g arg0) =
             e1 @ e2 @
             [Log WARN ''sender validation is ENFORCED'',
              Log ERROR ''missing required flag: --signature - see the help section: -h'',
              Log WARN (''attempting to fake a signature for: '' @ senderHandle h @ ''...'')]
             @ (rest @ tail)"
    using t r by simp
  have "rest @ tail \<noteq> []" and "hd (rest @ tail) = hd rest"
    using ne by simp_all
  with ev hd have first: "\<exists>rest. events (Run n w g arg0) =
             e1 @ e2 @
             [Log WARN ''sender validation is ENFORCED'',
              Log ERROR ''missing required flag: --signature - see the help section: -h'',
              Log WARN (''attempting to fake a signature for: '' @ senderHandle h @ ''...'')] @ rest
           \<and> rest \<noteq> []
           \<and> hd rest = (if senderHandle h \<noteq> paymailAddress h
                        then CallGetCapabilities (senderDomain h)
                        else Log SUCCESS ''send request pre-validation: passed'')"
    by metis
  have sig: "signature_after (Run n w g arg0) = RandomHex (rand_Read w) 64"
    using Run_through_senderValidation(2) [OF assms(1,2)]
      senderValidation_placeholder(1) [OF assms(3,4)] by simp
  show ?thesis
    using first sig by (simp add: RandomHex_length RandomHex_is_hex)
qed

text \<open>\<open>bob@receiver.com\<close> at a provider that validates senders, with no flag given.\<close>

theorem placeholder_signature_witness:
  "(\<exists>rest. events (Run bsvalias (mock doc_validating) (init bsvalias no_flags) ''bob@receiver.com'') =
       [Log WARN ''--sender-handle not set, using: bob@receiver.com'',
        CallGetCapabilities ''receiver.com'',
        Log WARN ''sender validation is ENFORCED'',
        Log ERROR ''missing required flag: --signature - see the help section: -h'',
        Log WARN ''attempting to fake a signature for: bob@receiver.com...'',
        Log SUCCESS ''send request pre-validation: passed''] @ rest)
   \<and> length (signature_after
        (Run bsvalias (mock doc_validating) (init bsvalias no_flags) ''bob@receiver.com'')) = 128
   \<and> list_all is_hex (signature_after
        (Run bsvalias (mock doc_validating) (init bsvalias no_flags) ''bob@receiver.com''))"
proof -
  have v: "GetValueBool (mock doc_validating)
             (capabilities \<lparr>capabilities = doc_validating, pkiUrl = ''https://p/id'',
                            resolveUrl = ''https://p/addr''\<rparr>)
             (BRFCSenderValidation bsvalias) []"
    by (simp add: mock_defs)
  have s: "signature (init bsvalias no_flags) = []"
    by (simp add: init_def no_flags_def)
  from placeholder_signature [OF gate_bob discover_bob v s]
  obtain rest where
    e: "events (Run bsvalias (mock doc_validating) (init bsvalias no_flags) ''bob@receiver.com'') =
         [Log WARN ''--sender-handle not set, using: bob@receiver.com''] @
         [CallGetCapabilities ''receiver.com''] @
         [Log WARN ''sender validation is ENFORCED'',
          Log ERROR ''missing required flag: --signature - see the help section: -h'',
          Log WARN (''attempting to fake a signature for: '' @ senderHandle bob @ ''...'')] @ rest"
    and ne: "rest \<noteq> []"
    and h: "hd rest = (if senderHandle bob \<noteq> paymailAddress bob
                        then CallGetCapabilities (senderDomain bob)
                        else Log SUCCESS ''send request pre-validation: passed'')"
    and l: "length (signature_after
        (Run bsvalias (mock doc_validating) (init bsvalias no_flags) ''bob@receiver.com'')) = 128"
    and x: "list_all is_hex (signature_after
        (Run bsvalias (mock doc_validating) (init bsvalias no_flags) ''bob@receiver.com''))"
    by blast
  from ne h obtain rest' where "rest = Log SUCCESS ''send request pre-validation: passed'' # rest'"
    by (cases rest) (simp_all add: bob_def)
  with e have "events (Run bsvalias (mock doc_validating) (init bsvalias no_flags) ''bob@receiver.com'') =
       [Log WARN ''--sender-handle not set, using: bob@receiver.com'',
        CallGetCapabilities ''receiver.com'',
        Log WARN ''sender validation is ENFORCED'',
        Log ERROR ''missing required flag: --signature - see the help section: -h'',
        Log WARN ''attempting to fake a signature for: bob@receiver.com...'',
        Log SUCCESS ''send request pre-validation: passed''] @ rest'"
    by (simp add: bob_def)
  with l x show ?thesis by blast
qed

text \<open>
  Claim C5. The claim has the warning of a sender discovery that runs into the deadline
  name the sender's domain. Line 123 formats the warning with \<open>domain\<close>, the receiver's
  domain: with the sender \<open>alice@sender.com\<close> and the receiver \<open>bob@receiver.com\<close>,
  the discovery that fails is the one of \<open>sender.com\<close>, and the warning of the run names
  \<open>receiver.com\<close>.
\<close>

theorem sender_timeout_names_receiver_domain:
  "events (Run bsvalias sender_slow (init bsvalias from_alice) ''bob@receiver.com'') =
     [CallGetCapabilities ''receiver.com'',
      Log WARN ''sender validation is ENFORCED'',
      Log ERROR ''missing required flag: --signature - see the help section: -h'',
      Log WARN ''attempting to fake a signature for: alice@sender.com...'',
      CallGetCapabilities ''sender.com'',
      Log WARN ''no capabilities found for: receiver.com'']
   \<and> final (Run bsvalias sender_slow (init bsvalias from_alice) ''bob@receiver.com'') = Aborted"
  by (simp add: run_defs mock_defs sender_slow_def from_alice_def)

subsection \<open>The request\<close>

text \<open>
  Claim C8. The claim has the request's \<open>senderName\<close> taken from the sender name the
  caller configured. Line 231 binds the viper key \<open>flagSenderName\<close> to the flag looked
  up under \<open>flagSenderHandle\<close>: with \<open>--sender-handle alice@sender.com --sender-name
  Alice\<close> the request that the run posts has \<open>alice@sender.com\<close> as its sender name.
  Its other fields are as the claim says.
\<close>

theorem sender_name_is_the_sender_handle:
  "opt_named from_alice (flagSenderName bsvalias) = Some ''Alice''
   \<and> events (Run bsvalias (mock doc_basic) (init bsvalias from_alice) ''bob@receiver.com'') =
     [CallGetCapabilities ''receiver.com'',
      CallGetPki ''https://p/id'' ''bob'' ''receiver.com'',
      Log DEFAULT ''resolving address: bob@receiver.com...'',
      CallAddressResolution ''https://p/addr'' ''bob'' ''receiver.com''
        \<lparr>Amount = 0, Dt = ''2020-02-02T20:20:02Z'', Purpose = [],
         SenderHandle = ''alice@sender.com'', SenderName = ''alice@sender.com'',
         Signature = []\<rparr>,
      Log SUCCESS ''address resolution successful'',
      Log DEFAULT ''pubkey: 02ab'',
      Log DEFAULT ''output script: 76a914'',
      Log DEFAULT ''address: 1Bob'']"
  by (simp add: run_defs mock_defs from_alice_def)

text \<open>The value given to the sender-name flag is never read.\<close>

lemma viper_find_flagSenderName:
  "flagSenderName n \<noteq> flagSenderHandle n \<Longrightarrow>
   viper_find n c (flagSenderName n) =
     (case opt_named c (flagSenderHandle n) of
        Some v \<Rightarrow> v
      | None \<Rightarrow> (case settings c (flagSenderName n) of Some v \<Rightarrow> v | None \<Rightarrow> []))"
  by (simp add: viper_find_def init_BindPFlag_def)

subsection \<open>The receiver's public key and the profile\<close>

lemma Run_through_resolve:
  assumes "gate n w g arg0 = Go e1 h" and "discover n w h = Go e2 d"
    and "senderValidation n w g h d = (sig, Go e3 u)"
  shows "Run n w g arg0 =
           \<lparr>events = e1 @ e2 @ e3 @ fst (resolve n w g h d sig),
            final = snd (resolve n w g h d sig),
            signature_after = sig\<rparr>"
  using assms by (simp add: Run_def)

lemma alias_split:
  "\<exists>rest. strings_Split s sep = hd (strings_Split s sep) # rest"
  using strings_Split_not_Nil [of s sep] by (cases "strings_Split s sep") auto

lemma resolve_begins_with_pki:
  "\<exists>rest. fst (resolve n w g h d sig) =
      CallGetPki (pkiUrl d) (hd (strings_Split (paymailAddress h) CHR ''@'')) (domain h) # rest
    \<and> (\<forall>err. getPki w (pkiUrl d) (hd (strings_Split (paymailAddress h) CHR ''@'')) (domain h) = Inl err
          \<longrightarrow> rest = [Log ERROR (''error: '' @ err)] \<and> snd (resolve n w g h d sig) = Aborted)"
proof -
  obtain rest where s: "strings_Split (paymailAddress h) CHR ''@'' =
      hd (strings_Split (paymailAddress h) CHR ''@'') # rest"
    using alias_split by blast
  show ?thesis
    by (subst (1 2) resolve_def, subst (1 2) s)
       (auto simp: Let_def split: sum.splits)
qed

lemma skipPki_not_read_parts:
  "senderRequest n w (g\<lparr>skipPki := b\<rparr>) h sig = senderRequest n w g h sig"
  "publicProfile n w (g\<lparr>skipPki := b\<rparr>) caps alias host = publicProfile n w g caps alias host"
  by (simp_all add: senderRequest_def publicProfile_def)

lemma skipPki_not_read:
  "gate n w (g\<lparr>skipPki := b\<rparr>) arg0 = gate n w g arg0"
  "senderValidation n w (g\<lparr>skipPki := b\<rparr>) h d = senderValidation n w g h d"
  "resolve n w (g\<lparr>skipPki := b\<rparr>) h d sig = resolve n w g h d sig"
  by (simp_all add: gate_def senderValidation_def resolve_def skipPki_not_read_parts
        cong: list.case_cong sum.case_cong)

text \<open>
  Claim C7. A run that has passed the required capabilities and sender validation
  fetches the receiver's public key next, at the PKI endpoint with the receiver's alias
  (the part of the address before the first \<open>@\<close>) and domain, whatever the value of
  the variable behind \<open>--skip-pki\<close>; when the fetch returns an error the run logs
  the error's text and is aborted.
\<close>

theorem receiver_pki_fetch:
  assumes "gate n w g arg0 = Go e1 h"
    and "discover n w h = Go e2 d"
    and "senderValidation n w g h d = (sig, Go e3 u)"
  shows "paymailAddress h = arg0 \<and> domain h = fst (ExtractParts arg0)
         \<and> (\<exists>rest. events (Run n w (g\<lparr>skipPki := b\<rparr>) arg0) =
               e1 @ e2 @ e3 @
               CallGetPki (pkiUrl d) (hd (strings_Split arg0 CHR ''@'')) (domain h) # rest
             \<and> (\<forall>err. getPki w (pkiUrl d) (hd (strings_Split arg0 CHR ''@'')) (domain h) = Inl err
                   \<longrightarrow> rest = [Log ERROR (''error: '' @ err)]
                       \<and> final (Run n w (g\<lparr>skipPki := b\<rparr>) arg0) = Aborted))"
proof -
  have a: "paymailAddress h = arg0" and dm: "domain h = fst (ExtractParts arg0)"
    using gate_Go [OF assms(1)] by simp_all
  have r: "Run n w (g\<lparr>skipPki := b\<rparr>) arg0 =
           \<lparr>events = e1 @ e2 @ e3 @ fst (resolve n w g h d sig),
            final = snd (resolve n w g h d sig),
            signature_after = sig\<rparr>"
    using Run_through_resolve [of n w "g\<lparr>skipPki := b\<rparr>" arg0 e1 h e2 d sig e3 u] assms
    by (simp add: skipPki_not_read)
  show ?thesis
    using resolve_begins_with_pki [of n w g h d sig] a dm by (simp add: r)
qed

text \<open>The PKI endpoint refuses the connection, and \<open>--skip-pki\<close> is set.\<close>

theorem receiver_pki_fetch_witness:
  "events (Run bsvalias pki_down ((init bsvalias no_flags)\<lparr>skipPki := True\<rparr>) ''bob@receiver.com'') =
     [Log WARN ''--sender-handle not set, using: bob@receiver.com'',
      CallGetCapabilities ''receiver.com'',
      CallGetPki ''https://p/id'' ''bob'' ''receiver.com'',
      Log ERROR ''error: Get https://p/id: connection refused'']
   \<and> final (Run bsvalias pki_down ((init bsvalias no_flags)\<lparr>skipPki := True\<rparr>) ''bob@receiver.com'')
       = Aborted"
proof -
  have g: "gate bsvalias pki_down (init bsvalias no_flags) ''bob@receiver.com'' =
             Go [Log WARN ''--sender-handle not set, using: bob@receiver.com''] bob"
    by (simp add: gate_def ExtractParts_def bob_def pki_down_def mock_defs)
  have d: "discover bsvalias pki_down bob = Go [CallGetCapabilities ''receiver.com''] found_basic"
    by (simp add: discover_def Let_def bob_def found_basic_def pki_down_def mock_defs)
  have v: "senderValidation bsvalias pki_down (init bsvalias no_flags) bob found_basic = ([], Go [] ())"
    by (simp add: senderValidation_def found_basic_def pki_down_def mock_defs)
  have p: "getPki pki_down (pkiUrl found_basic) (hd (strings_Split ''bob@receiver.com'' CHR ''@''))
             (domain bob) = Inl ''Get https://p/id: connection refused''"
    by (simp add: pki_down_def)
  from receiver_pki_fetch [OF g d v, of True] p
  show ?thesis
    by (auto simp: found_basic_def bob_def)
qed

text \<open>
  Claim C6. When the run reaches the lookup of the public profile and the fetch returns
  an error, the run logs the error and goes on to the final report: the receiver's
  public key when the PKI response holds one, the output script and the address. The
  run completes.
\<close>

theorem profile_error_does_not_abort:
  assumes "gate n w g arg0 = Go e1 h"
    and "discover n w h = Go e2 d"
    and "senderValidation n w g h d = (sig, Go e3 u)"
    and "alias = hd (strings_Split (paymailAddress h) CHR ''@'')"
    and "getPki w (pkiUrl d) alias (domain h) = Inr pki"
    and "AddressResolution w (resolveUrl d) alias (domain h) (senderRequest n w g h sig) = Inr (Some r)"
    and "url = GetValueString w (capabilities d) (BRFCPublicProfile n) []"
    and "url \<noteq> []" and "\<not> skipPublicProfile g"
    and "GetPublicProfile w url alias (domain h) = Inl err"
  shows "Run n w g arg0 =
           \<lparr>events = e1 @ e2 @ e3 @
              [CallGetPki (pkiUrl d) alias (domain h),
               Log DEFAULT (''resolving address: '' @ Cyan_Color w (alias @ ''@'' @ domain h) @ ''...''),
               CallAddressResolution (resolveUrl d) alias (domain h) (senderRequest n w g h sig),
               Log SUCCESS ''address resolution successful'',
               Log DEFAULT (''getting public profile for: '' @ Cyan_Color w (alias @ ''@'' @ domain h) @ ''...''),
               CallGetPublicProfile url alias (domain h),
               Log ERROR (''get public profile failed: '' @ err)]
              @ (case pki of
                   None \<Rightarrow> []
                 | Some k \<Rightarrow> if PubKey k = [] then []
                             else [Log DEFAULT (''pubkey: '' @ Cyan_Color w (PubKey k))])
              @ [Log DEFAULT (''output script: '' @ Cyan_Color w (Output r)),
                 Log DEFAULT (''address: '' @ Cyan_Color w (Address r))],
            final = Completed,
            signature_after = sig\<rparr>"
proof -
  obtain rest where s: "strings_Split (paymailAddress h) CHR ''@'' = alias # rest"
    using alias_split [of "paymailAddress h" "CHR ''@''"] assms(4) by auto
  have pr: "publicProfile n w g (capabilities d) alias (domain h) =
              [Log DEFAULT (''getting public profile for: '' @ Cyan_Color w (alias @ ''@'' @ domain h) @ ''...''),
               CallGetPublicProfile url alias (domain h),
               Log ERROR (''get public profile failed: '' @ err)]"
    using assms(7-10) by (simp add: publicProfile_def Let_def)
  have rp: "report w pki (Some r) =
              ((case pki of
                   None \<Rightarrow> []
                 | Some k \<Rightarrow> if PubKey k = [] then []
                             else [Log DEFAULT (''pubkey: '' @ Cyan_Color w (PubKey k))])
               @ [Log DEFAULT (''output script: '' @ Cyan_Color w (Output r)),
                  Log DEFAULT (''address: '' @ Cyan_Color w (Address r))],
               Completed)"
    by (simp add: report_def pubkeyLine_def split: option.splits)
  have "resolve n w g h d sig =
          ([CallGetPki (pkiUrl d) alias (domain h),
            Log DEFAULT (''resolving address: '' @ Cyan_Color w (alias @ ''@'' @ domain h) @ ''...''),
            CallAddressResolution (resolveUrl d) alias (domain h) (senderRequest n w g h sig),
            Log SUCCESS ''address resolution successful'']
           @ publicProfile n w g (capabilities d) alias (domain h)
           @ fst (report w pki (Some r)),
           snd (report w pki (Some r)))"
    using assms(5,6) by (simp add: resolve_def s Let_def)
  then show ?thesis
    using Run_through_resolve [OF assms(1-3)] by (simp add: pr rp)
qed

text \<open>The profile endpoint answers with an error, for a caller who signs.\<close>

theorem profile_error_does_not_abort_witness:
  "Run bsvalias profile_down (init bsvalias signed) ''bob@receiver.com'' =
     \<lparr>events =
        [Log WARN ''--sender-handle not set, using: bob@receiver.com'',
         CallGetCapabilities ''receiver.com'',
         Log WARN ''sender validation is ENFORCED'',
         Log SUCCESS ''send request pre-validation: passed'',
         CallGetPki ''https://p/id'' ''bob'' ''receiver.com'',
         Log DEFAULT ''resolving address: bob@receiver.com...'',
         CallAddressResolution ''https://p/addr'' ''bob'' ''receiver.com''
           \<lparr>Amount = 0, Dt = ''2020-02-02T20:20:02Z'', Purpose = [],
            SenderHandle = ''bob@receiver.com'', SenderName = [], Signature = ''3045''\<rparr>,
         Log SUCCESS ''address resolution successful'',
         Log DEFAULT ''getting public profile for: bob@receiver.com...'',
         CallGetPublicProfile ''https://p/profile'' ''bob'' ''receiver.com'',
         Log ERROR ''get public profile failed: bad response: 500'',
         Log DEFAULT ''pubkey: 02ab'',
         Log DEFAULT ''output script: 76a914'',
         Log DEFAULT ''address: 1Bob''],
      final = Completed,
      signature_after = ''3045''\<rparr>"
proof -
  have g: "gate bsvalias profile_down (init bsvalias signed) ''bob@receiver.com'' =
             Go [Log WARN ''--sender-handle not set, using: bob@receiver.com''] bob"
    by (simp add: gate_def ExtractParts_def bob_def profile_down_def signed_def mock_defs)
  have d: "discover bsvalias profile_down bob = Go [CallGetCapabilities ''receiver.com''] found_profile"
    by (simp add: discover_def Let_def bob_def found_profile_def profile_down_def mock_defs)
  have v: "senderValidation bsvalias profile_down (init bsvalias signed) bob found_profile =
             (''3045'', Go [Log WARN ''sender validation is ENFORCED'',
                           Log SUCCESS ''send request pre-validation: passed''] ())"
    by (simp add: senderValidation_def found_profile_def profile_down_def signed_def bob_def mock_defs)
  have a: "''bob'' = hd (strings_Split (paymailAddress bob) CHR ''@'')"
    by (simp add: bob_def)
  have p: "getPki profile_down (pkiUrl found_profile) ''bob'' (domain bob) = Inr (Some \<lparr>PubKey = ''02ab''\<rparr>)"
    by (simp add: profile_down_def mock_def)
  have r: "AddressResolution profile_down (resolveUrl found_profile) ''bob'' (domain bob)
             (senderRequest bsvalias profile_down (init bsvalias signed) bob ''3045'') =
           Inr (Some \<lparr>Output = ''76a914'', Address = ''1Bob''\<rparr>)"
    by (simp add: profile_down_def mock_def)
  have u: "''https://p/profile'' =
             GetValueString profile_down (capabilities found_profile) (BRFCPublicProfile bsvalias) []"
    by (simp add: profile_down_def found_profile_def mock_defs)
  have ne: "''https://p/profile'' \<noteq> []" by simp
  have sk: "\<not> skipPublicProfile (init bsvalias signed)"
    by (simp add: init_def signed_def no_flags_def)
  have f: "GetPublicProfile profile_down ''https://p/profile'' ''bob'' (domain bob) = Inl ''bad response: 500''"
    by (simp add: profile_down_def)
  show ?thesis
    using profile_error_does_not_abort [OF g d v a p r u ne sk f]
    by (simp add: senderRequest_def bob_def found_profile_def profile_down_def signed_def mock_defs)
qed

subsection \<open>The calls of a run whose sender is the receiver\<close>















subsection \<open>Two runs on the same input\<close>

text \<open>
  A second run differs from the first in what the clock and the random source give it:
  it runs in the world \<open>w\<lparr>time_Now := t, rand_Read := rnd\<rparr>\<close>.
\<close>

lemma logs_forget: "logs (map forget_dt_sig es) = logs es"
proof (induction es)
  case Nil
  then show ?case by (simp add: logs_def)
next
  case (Cons e es)
  then show ?case by (cases e) (simp_all add: logs_def)
qed

lemma other_world_gate:
  "gate n (w\<lparr>time_Now := t, rand_Read := rnd\<rparr>) g arg0 = gate n w g arg0"
  by (simp add: gate_def cong: prod.case_cong option.case_cong if_cong)

lemma other_world_discover:
  "discover n (w\<lparr>time_Now := t, rand_Read := rnd\<rparr>) h = discover n w h"
  by (simp add: discover_def Let_def cong: sum.case_cong if_cong)

lemma other_world_senderValidation:
  "snd (senderValidation n (w\<lparr>time_Now := t, rand_Read := rnd\<rparr>) g h d) =
     snd (senderValidation n w g h d)"
  by (simp add: senderValidation_def Let_def split: sum.splits list.splits option.splits)

lemma other_world_phases:
  "publicProfile n (w\<lparr>time_Now := t, rand_Read := rnd\<rparr>) g caps alias host =
     publicProfile n w g caps alias host"
  "report (w\<lparr>time_Now := t, rand_Read := rnd\<rparr>) pki resp = report w pki resp"
  by (simp_all add: publicProfile_def report_def pubkeyLine_def Let_def
        cong: sum.case_cong option.case_cong if_cong)

lemma RandomHex_64_not_empty: "RandomHex src 64 \<noteq> []"
  using RandomHex_length [of src 64] by auto

lemma other_world_signature:
  "fst (senderValidation n w g h d) = signature g \<Longrightarrow>
     fst (senderValidation n (w\<lparr>time_Now := t, rand_Read := rnd\<rparr>) g h d) = signature g"
  by (auto simp: senderValidation_def Let_def RandomHex_64_not_empty
        split: if_splits sum.splits list.splits)

lemma other_world_request:
  "senderRequest n (w\<lparr>time_Now := t, rand_Read := rnd\<rparr>) g h sig' =
     (senderRequest n w g h sig)\<lparr>Dt := t, Signature := sig'\<rparr>"
  by (simp add: senderRequest_def)

lemma other_world_resolve:
  assumes "\<forall>u a d r t s. AddressResolution w u a d (r\<lparr>Dt := t, Signature := s\<rparr>) =
             AddressResolution w u a d r"
  shows "map forget_dt_sig (fst (resolve n (w\<lparr>time_Now := t, rand_Read := rnd\<rparr>) g h d sig')) =
           map forget_dt_sig (fst (resolve n w g h d sig))"
    and "snd (resolve n (w\<lparr>time_Now := t, rand_Read := rnd\<rparr>) g h d sig') =
           snd (resolve n w g h d sig)"
    and "map forget_dt (fst (resolve n (w\<lparr>time_Now := t, rand_Read := rnd\<rparr>) g h d sig)) =
           map forget_dt (fst (resolve n w g h d sig))"
proof -
  let ?w = "w\<lparr>time_Now := t, rand_Read := rnd\<rparr>"
  obtain al rest where s: "strings_Split (paymailAddress h) CHR ''@'' = al # rest"
    using alias_split by blast
  have same: "\<And>x. AddressResolution w (resolveUrl d) al (domain h)
                  ((senderRequest n w g h sig)\<lparr>Dt := t, Signature := x\<rparr>) =
               AddressResolution w (resolveUrl d) al (domain h) (senderRequest n w g h sig)"
    using assms by blast
  have dt: "(senderRequest n w g h sig)\<lparr>Dt := t, Signature := sig\<rparr> =
              (senderRequest n w g h sig)\<lparr>Dt := t\<rparr>"
    by (simp add: senderRequest_def)
  show "map forget_dt_sig (fst (resolve n ?w g h d sig')) =
           map forget_dt_sig (fst (resolve n w g h d sig))"
    by (simp add: resolve_def s Let_def other_world_phases other_world_request [where sig = sig and sig' = sig']
          same split: sum.splits)
  show "snd (resolve n ?w g h d sig') = snd (resolve n w g h d sig)"
    by (simp add: resolve_def s Let_def other_world_phases other_world_request [where sig = sig and sig' = sig']
          same split: sum.splits)
  show "map forget_dt (fst (resolve n ?w g h d sig)) = map forget_dt (fst (resolve n w g h d sig))"
    using same [of sig]
    by (simp add: resolve_def s Let_def other_world_phases other_world_request [where sig = sig and sig' = sig]
          dt split: sum.splits)
qed

text \<open>
  Claim C10. The collaborators are functions, so the transport is deterministic; its
  answer to a resolution request is that of a fixed-answer transport when it does not
  depend on the two fields of the request that no input fixes, the time stamp and the
  signature. Then two runs on the same input log the same lines, the output script and
  the address among them, and end the same way. Their events differ at most in the time
  stamp and the signature of the outgoing request, and in the time stamp alone when the
  run leaves the caller's signature as it is.
\<close>

theorem two_runs_same_output:
  assumes "\<forall>u a d r t s. AddressResolution w u a d (r\<lparr>Dt := t, Signature := s\<rparr>) =
             AddressResolution w u a d r"
  shows "logs (events (Run n (w\<lparr>time_Now := t', rand_Read := rnd'\<rparr>) g arg0)) =
           logs (events (Run n w g arg0))
         \<and> final (Run n (w\<lparr>time_Now := t', rand_Read := rnd'\<rparr>) g arg0) = final (Run n w g arg0)
         \<and> map forget_dt_sig (events (Run n (w\<lparr>time_Now := t', rand_Read := rnd'\<rparr>) g arg0)) =
             map forget_dt_sig (events (Run n w g arg0))
         \<and> (signature_after (Run n w g arg0) = signature g \<longrightarrow>
               map forget_dt (events (Run n (w\<lparr>time_Now := t', rand_Read := rnd'\<rparr>) g arg0)) =
               map forget_dt (events (Run n w g arg0)))"
proof -
  let ?w = "w\<lparr>time_Now := t', rand_Read := rnd'\<rparr>"
  have main: "final (Run n ?w g arg0) = final (Run n w g arg0)
         \<and> map forget_dt_sig (events (Run n ?w g arg0)) = map forget_dt_sig (events (Run n w g arg0))
         \<and> (signature_after (Run n w g arg0) = signature g \<longrightarrow>
               map forget_dt (events (Run n ?w g arg0)) = map forget_dt (events (Run n w g arg0)))"
  proof (cases "gate n w g arg0")
    case (Stop e1 oc)
    then show ?thesis by (simp add: Run_def other_world_gate)
  next
    case g1: (Go e1 h)
    show ?thesis
    proof (cases "discover n w h")
      case (Stop e2 oc)
      with g1 show ?thesis by (simp add: Run_def other_world_gate other_world_discover)
    next
      case d1: (Go e2 d)
      obtain sig st where sv: "senderValidation n w g h d = (sig, st)"
        by (cases "senderValidation n w g h d")
      obtain sig' where sv': "senderValidation n ?w g h d = (sig', st)"
        using other_world_senderValidation [where n = n and w = w and t = t' and rnd = rnd' and g = g and h = h and d = d] sv
        by (cases "senderValidation n ?w g h d") simp
      show ?thesis
      proof (cases st)
        case (Stop e3 oc)
        with g1 d1 sv sv' show ?thesis
          by (simp add: Run_def other_world_gate other_world_discover)
      next
        case (Go e3 u)
        have r: "Run n w g arg0 =
                   \<lparr>events = e1 @ e2 @ e3 @ fst (resolve n w g h d sig),
                    final = snd (resolve n w g h d sig), signature_after = sig\<rparr>"
          using g1 d1 sv Go by (simp add: Run_def)
        have r': "Run n ?w g arg0 =
                   \<lparr>events = e1 @ e2 @ e3 @ fst (resolve n ?w g h d sig'),
                    final = snd (resolve n ?w g h d sig'), signature_after = sig'\<rparr>"
          using g1 d1 sv' Go by (simp add: Run_def other_world_gate other_world_discover)
        have same_sig: "sig = signature g \<Longrightarrow> sig' = sig"
          using other_world_signature [where n = n and w = w and t = t' and rnd = rnd' and g = g and h = h and d = d] sv sv' by simp
        show ?thesis
          using other_world_resolve [OF assms, where n = n and t = t' and rnd = rnd' and g = g and h = h and d = d] same_sig
          by (auto simp: r r')
      qed
    qed
  qed
  have "logs (events (Run n ?w g arg0)) = logs (map forget_dt_sig (events (Run n ?w g arg0)))"
    by (simp add: logs_forget)
  also have "\<dots> = logs (map forget_dt_sig (events (Run n w g arg0)))"
    using main by simp
  also have "\<dots> = logs (events (Run n w g arg0))"
    by (simp add: logs_forget)
  finally show ?thesis using main by simp
qed

text \<open>Another time and other random bytes, at the provider that validates senders.\<close>

theorem two_runs_same_output_witness:
  "logs (events (Run bsvalias ((mock doc_validating)\<lparr>time_Now := ''2021-03-04T05:06:07Z'',
                                                      rand_Read := (\<lambda>i. 255)\<rparr>)
                   (init bsvalias no_flags) ''bob@receiver.com'')) =
     logs (events (Run bsvalias (mock doc_validating) (init bsvalias no_flags) ''bob@receiver.com''))
   \<and> final (Run bsvalias ((mock doc_validating)\<lparr>time_Now := ''2021-03-04T05:06:07Z'',
                                                    rand_Read := (\<lambda>i. 255)\<rparr>)
               (init bsvalias no_flags) ''bob@receiver.com'') =
     final (Run bsvalias (mock doc_validating) (init bsvalias no_flags) ''bob@receiver.com'')"
proof -
  have i: "\<forall>u a d r t s. AddressResolution (mock doc_validating) u a d (r\<lparr>Dt := t, Signature := s\<rparr>) =
             AddressResolution (mock doc_validating) u a d r"
    by (simp add: mock_def)
  show ?thesis
    by (simp add: two_runs_same_output [OF i])
qed

end
